theory Spec2Isabelle
  imports Main
begin

section \<open>Values of the loaded documents\<close>

text \<open>
  \<^verbatim>\<open>json.load\<close> and \<^verbatim>\<open>yaml.safe_load\<close> deliver Python objects. The embedding has
  \<^verbatim>\<open>None\<close>, booleans, unbounded integers, floats, strings, lists, and dictionaries
  with string keys in insertion order (Python dictionaries iterate in insertion order,
  and \<^verbatim>\<open>validate_config\<close> walks the matrix with \<^verbatim>\<open>.items()\<close>). A dictionary is an
  association list; a loaded dictionary never repeats a key, which is the predicate
  \<open>wf_dict\<close> below.

  A float is its sign, mantissa and binary exponent (the value \<open>\<plusminus> m \<sqdot> 2\<^sup>e\<close>), an
  infinity with its sign, or a NaN. A NaN carries the identity of its object, because
  the membership test of a list looks at identity before equality: every \<^verbatim>\<open>NaN\<close> that
  \<^verbatim>\<open>json.load\<close> delivers is the one object \<^verbatim>\<open>json.decoder.NaN\<close>.

  Strings are lists of characters with code points below 256. The scalars that only
  YAML has (timestamps, binary, sets) and dictionary keys that are not strings are not
  represented; neither is the exhaustion of memory or of the recursion depth.
\<close>

datatype pyfloat =
    Finite bool nat int
  | Infinity bool
  | NaN nat

datatype pyval =
    PNone
  | PBool bool
  | PInt int
  | PFloat pyfloat
  | PStr string
  | PList "pyval list"
  | PDict "(string \<times> pyval) list"

text \<open>The exceptions of the interpreter and of the two parser libraries that the
  program can meet, and what a call of one of the program's functions can raise:
  its own \<^verbatim>\<open>ConfigError\<close> with a message, or one of the others passing through.\<close>

datatype py_exception =
    FileNotFoundError
  | PermissionError
  | OSError string
  | JSONDecodeError string
  | YAMLError string
  | TypeError
  | AttributeError
  | KeyError
  | ValueError
  | OtherException string

datatype raised =
    ConfigError string
  | Propagated py_exception

datatype log_level = DEBUG | INFO | WARNING | ERROR

type_synonym log_record = "log_level \<times> string"

subsection \<open>Identity or equality, and membership, as the interpreter decides them\<close>

text \<open>
  Numbers are compared by value, exactly: \<^verbatim>\<open>bool\<close> is a subclass of \<^verbatim>\<open>int\<close>, so
  \<^verbatim>\<open>True == 1\<close> and \<^verbatim>\<open>False == 0\<close>, and a float equals the integer or the float of
  the same value (\<^verbatim>\<open>8.0 == 8\<close>, \<^verbatim>\<open>0.0 == -0.0\<close>).
\<close>

definition signed :: "bool \<Rightarrow> nat \<Rightarrow> int" where
  "signed negative m = (if negative then - int m else int m)"

definition dyadic_eq :: "int \<Rightarrow> int \<Rightarrow> int \<Rightarrow> int \<Rightarrow> bool" where
  "dyadic_eq a e b f = (a * 2 ^ nat (e - min e f) = b * 2 ^ nat (f - min e f))"

fun float_eq_int :: "pyfloat \<Rightarrow> int \<Rightarrow> bool" where
  "float_eq_int (Finite s m e) i = dyadic_eq (signed s m) e i 0"
| "float_eq_int _ i = False"

text \<open>Two NaN are never equal; here they pass only as the same object.\<close>

fun float_is_or_eq :: "pyfloat \<Rightarrow> pyfloat \<Rightarrow> bool" where
  "float_is_or_eq (Finite s m e) g =
     (case g of Finite t n f \<Rightarrow> dyadic_eq (signed s m) e (signed t n) f | _ \<Rightarrow> False)"
| "float_is_or_eq (Infinity s) g = (case g of Infinity t \<Rightarrow> s = t | _ \<Rightarrow> False)"
| "float_is_or_eq (NaN a) g = (case g of NaN b \<Rightarrow> a = b | _ \<Rightarrow> False)"

text \<open>
  \<^verbatim>\<open>PyObject_RichCompareBool(v, w, Py_EQ)\<close>, the test that list membership and the
  comparison of the elements of lists and dictionaries use: true for the same object,
  and \<^verbatim>\<open>v == w\<close> otherwise. The same object has the same value here, and for every
  value but a NaN the same value is equal, so identity shows in the NaN case only.
  A string equals only the same string; lists are compared element by element;
  dictionaries by size and by the value under each key.
\<close>

fun py_is_or_eq :: "pyval \<Rightarrow> pyval \<Rightarrow> bool" where
  "py_is_or_eq PNone w = (w = PNone)"
| "py_is_or_eq (PBool b) w =
     (case w of
        PBool c \<Rightarrow> b = c
      | PInt j \<Rightarrow> (if b then 1 else 0) = j
      | PFloat g \<Rightarrow> float_eq_int g (if b then 1 else 0)
      | _ \<Rightarrow> False)"
| "py_is_or_eq (PInt i) w =
     (case w of
        PBool c \<Rightarrow> i = (if c then 1 else 0)
      | PInt j \<Rightarrow> i = j
      | PFloat g \<Rightarrow> float_eq_int g i
      | _ \<Rightarrow> False)"
| "py_is_or_eq (PFloat f) w =
     (case w of
        PBool c \<Rightarrow> float_eq_int f (if c then 1 else 0)
      | PInt j \<Rightarrow> float_eq_int f j
      | PFloat g \<Rightarrow> float_is_or_eq f g
      | _ \<Rightarrow> False)"
| "py_is_or_eq (PStr s) w = (w = PStr s)"
| "py_is_or_eq (PList xs) w =
     (case w of PList ys \<Rightarrow> list_all2 py_is_or_eq xs ys | _ \<Rightarrow> False)"
| "py_is_or_eq (PDict kvs) w =
     (case w of
        PDict kws \<Rightarrow>
          length kvs = length kws \<and>
          list_all (\<lambda>kv. case map_of kws (fst kv) of
                             None \<Rightarrow> False
                           | Some w' \<Rightarrow> py_is_or_eq (snd kv) w') kvs
      | _ \<Rightarrow> False)"

text \<open>\<^verbatim>\<open>sub in s\<close> on two strings: \<open>sub\<close> occurs in \<open>s\<close> as a contiguous piece.\<close>

fun str_contains :: "string \<Rightarrow> string \<Rightarrow> bool" where
  "str_contains s sub =
     (take (length sub) s = sub \<or> (case s of [] \<Rightarrow> False | _ # cs \<Rightarrow> str_contains cs sub))"

declare str_contains.simps [simp del]

text \<open>
  \<^verbatim>\<open>item in container\<close>. A list is searched with the test above; a dictionary is asked
  for a key, which hashes the item first (lists and dictionaries are unhashable); a
  string accepts only a string on the left; \<^verbatim>\<open>None\<close>, booleans and numbers are not
  containers.
\<close>

fun py_contains :: "pyval \<Rightarrow> pyval \<Rightarrow> py_exception + bool" where
  "py_contains (PList xs) item = Inr (list_ex (\<lambda>x. py_is_or_eq x item) xs)"
| "py_contains (PDict kvs) item =
     (case item of
        PList _ \<Rightarrow> Inl TypeError
      | PDict _ \<Rightarrow> Inl TypeError
      | PStr k \<Rightarrow> Inr (map_of kvs k \<noteq> None)
      | _ \<Rightarrow> Inr False)"
| "py_contains (PStr s) item =
     (case item of PStr sub \<Rightarrow> Inr (str_contains s sub) | _ \<Rightarrow> Inl TypeError)"
| "py_contains _ item = Inl TypeError"

text \<open>\<^verbatim>\<open>container[key]\<close> with a string key, the only subscript the program writes.\<close>

fun py_getitem :: "pyval \<Rightarrow> string \<Rightarrow> py_exception + pyval" where
  "py_getitem (PDict kvs) k = (case map_of kvs k of None \<Rightarrow> Inl KeyError | Some v \<Rightarrow> Inr v)"
| "py_getitem _ k = Inl TypeError"

subsection \<open>Rendering values in an f-string\<close>

text \<open>
  \<^verbatim>\<open>{actual_value}\<close> formats with \<^verbatim>\<open>str\<close>, \<^verbatim>\<open>{expected_values}\<close> formats a list,
  whose \<^verbatim>\<open>str\<close> is its \<^verbatim>\<open>repr\<close> and shows every element with \<^verbatim>\<open>repr\<close>.

  The decimal text of an integer of more than \<^verbatim>\<open>sys.get_int_max_str_digits()\<close> digits
  is refused with \<^verbatim>\<open>ValueError\<close>; the program leaves that limit at its default, 4300.
\<close>

definition int_max_str_digits :: nat where
  "int_max_str_digits = 4300"

definition digit_char :: "nat \<Rightarrow> char" where
  "digit_char d = ''0123456789abcdef'' ! d"

function str_nat :: "nat \<Rightarrow> string" where
  "str_nat n = (if n < 10 then [digit_char n] else str_nat (n div 10) @ [digit_char (n mod 10)])"
  by pat_completeness auto
termination
  by (relation "measure id") auto

declare str_nat.simps [simp del]

definition str_int :: "int \<Rightarrow> py_exception + string" where
  "str_int i =
     (if int_max_str_digits < length (str_nat (nat \<bar>i\<bar>)) then Inl ValueError
      else if i < 0 then Inr (CHR ''-'' # str_nat (nat (- i)))
      else Inr (str_nat (nat i)))"

abbreviation apos :: string where
  "apos \<equiv> [CHR 0x27]"

text \<open>
  The \<^verbatim>\<open>repr\<close> of a string picks its quote, escapes the quote and the backslash, and
  writes every character that is not printable as an escape: of the code points below
  256 those are 0 to 31 and 127 to 160 and 173.
\<close>

definition repr_char :: "char \<Rightarrow> char \<Rightarrow> string" where
  "repr_char q c =
     (if c = q \<or> c = CHR 0x5C then [CHR 0x5C, c]
      else if c = CHR 0x09 then [CHR 0x5C, CHR ''t'']
      else if c = CHR 0x0A then [CHR 0x5C, CHR ''n'']
      else if c = CHR 0x0D then [CHR 0x5C, CHR ''r'']
      else if of_char c < (32::nat) \<or> ((127::nat) \<le> of_char c \<and> of_char c \<le> (160::nat)) \<or>
              of_char c = (173::nat)
        then [CHR 0x5C, CHR ''x'', digit_char (of_char c div 16), digit_char (of_char c mod 16)]
      else [c])"

definition repr_str :: "string \<Rightarrow> string" where
  "repr_str s =
     (let q = (if CHR 0x27 \<in> set s \<and> CHR 0x22 \<notin> set s then CHR 0x22 else CHR 0x27)
      in [q] @ concat (map (repr_char q) s) @ [q])"

fun join :: "string \<Rightarrow> string list \<Rightarrow> string" where
  "join sep [] = []"
| "join sep [x] = x"
| "join sep (x # y # ys) = x @ sep @ join sep (y # ys)"

text \<open>The elements of a list are rendered from left to right; the first one that fails
  ends the rendering.\<close>

fun sequence_sum :: "('e + 'a) list \<Rightarrow> 'e + 'a list" where
  "sequence_sum [] = Inr []"
| "sequence_sum (r # rs) =
     (case r of
        Inl e \<Rightarrow> Inl e
      | Inr x \<Rightarrow> (case sequence_sum rs of Inl e \<Rightarrow> Inl e | Inr xs \<Rightarrow> Inr (x # xs)))"

text \<open>
  The \<^verbatim>\<open>repr\<close> of a float is the shortest decimal text that reads back as the same
  float; it is the interpreter's, and is the parameter \<open>float_repr\<close> here.
\<close>

fun py_repr :: "(pyfloat \<Rightarrow> string) \<Rightarrow> pyval \<Rightarrow> py_exception + string" where
  "py_repr float_repr PNone = Inr ''None''"
| "py_repr float_repr (PBool b) = Inr (if b then ''True'' else ''False'')"
| "py_repr float_repr (PInt i) = str_int i"
| "py_repr float_repr (PFloat f) = Inr (float_repr f)"
| "py_repr float_repr (PStr s) = Inr (repr_str s)"
| "py_repr float_repr (PList xs) =
     (case sequence_sum (map (py_repr float_repr) xs) of
        Inl e \<Rightarrow> Inl e
      | Inr ss \<Rightarrow> Inr (''['' @ join '', '' ss @ '']''))"
| "py_repr float_repr (PDict kvs) =
     (case sequence_sum
             (map (\<lambda>kv. case py_repr float_repr (snd kv) of
                          Inl e \<Rightarrow> Inl e
                        | Inr s \<Rightarrow> Inr (repr_str (fst kv) @ '': '' @ s)) kvs) of
        Inl e \<Rightarrow> Inl e
      | Inr ss \<Rightarrow> Inr (''{'' @ join '', '' ss @ ''}''))"

definition py_str :: "(pyfloat \<Rightarrow> string) \<Rightarrow> pyval \<Rightarrow> py_exception + string" where
  "py_str float_repr v = (case v of PStr s \<Rightarrow> Inr s | _ \<Rightarrow> py_repr float_repr v)"

section \<open>The validator\<close>

text \<open>The two f-strings of \<^verbatim>\<open>validate_config\<close>. The second renders the value, then the
  allowed list, and fails when one of them does.\<close>

definition missing_msg :: "string \<Rightarrow> string" where
  "missing_msg property_name =
     ''Property '' @ apos @ property_name @ apos @ '' is missing from the configuration.''"

definition incompatible_msg ::
  "(pyfloat \<Rightarrow> string) \<Rightarrow> string \<Rightarrow> pyval \<Rightarrow> pyval \<Rightarrow> py_exception + string" where
  "incompatible_msg float_repr property_name actual_value expected_values =
     (case py_str float_repr actual_value of
        Inl e \<Rightarrow> Inl e
      | Inr v \<Rightarrow>
          (case py_str float_repr expected_values of
             Inl e \<Rightarrow> Inl e
           | Inr allowed \<Rightarrow>
               Inr (''Property '' @ apos @ property_name @ apos @
                    '' has incompatible value '' @ apos @ v @ apos @
                    ''. Allowed values: '' @ allowed)))"

text \<open>
  The body of the \<^verbatim>\<open>for\<close> loop over \<^verbatim>\<open>compatibility_matrix.items()\<close>, with the list
  \<open>issues\<close> and the records handed to \<^verbatim>\<open>logging.warning\<close> as the state. An
  exception leaves the loop; the records logged before it stay logged. The text of an
  issue is built before it is appended, so a failure to build it appends and logs
  nothing.
\<close>

fun validate_items ::
  "(pyfloat \<Rightarrow> string) \<Rightarrow> pyval \<Rightarrow> (string \<times> pyval) list \<Rightarrow> string list \<Rightarrow>
     log_record list \<Rightarrow> (py_exception + string list) \<times> log_record list" where
  "validate_items float_repr config_data [] issues lg = (Inr issues, lg)"
| "validate_items float_repr config_data ((property_name, expected_values) # rest) issues lg =
     (case py_contains config_data (PStr property_name) of
        Inl e \<Rightarrow> (Inl e, lg)
      | Inr True \<Rightarrow>
          (case py_getitem config_data property_name of
             Inl e \<Rightarrow> (Inl e, lg)
           | Inr actual_value \<Rightarrow>
               (case py_contains expected_values actual_value of
                  Inl e \<Rightarrow> (Inl e, lg)
                | Inr True \<Rightarrow> validate_items float_repr config_data rest issues lg
                | Inr False \<Rightarrow>
                    (case incompatible_msg float_repr property_name actual_value
                            expected_values of
                       Inl e \<Rightarrow> (Inl e, lg)
                     | Inr msg \<Rightarrow>
                         validate_items float_repr config_data rest
                           (issues @ [msg]) (lg @ [(WARNING, msg)]))))
      | Inr False \<Rightarrow>
          validate_items float_repr config_data rest
            (issues @ [missing_msg property_name])
            (lg @ [(WARNING, missing_msg property_name)]))"

text \<open>\<^verbatim>\<open>.items()\<close> exists on a dictionary only.\<close>

definition validate_config ::
  "(pyfloat \<Rightarrow> string) \<Rightarrow> pyval \<Rightarrow> pyval \<Rightarrow>
     (py_exception + string list) \<times> log_record list" where
  "validate_config float_repr config_data compatibility_matrix =
     (case compatibility_matrix of
        PDict items \<Rightarrow> validate_items float_repr config_data items [] []
      | _ \<Rightarrow> (Inl AttributeError, []))"

text \<open>
  What the loop computes, read off the description of the validator: a matrix entry
  is violated when its property is absent from the configuration or present with a
  value that is not a member of the allowed list; a violated entry has one issue text.
  The text of a value can be built when no integer in it has more digits than the
  limit.
\<close>

fun is_list :: "pyval \<Rightarrow> bool" where
  "is_list (PList xs) = True"
| "is_list _ = False"


definition wf_matrix :: "(string \<times> pyval) list \<Rightarrow> bool" where
  "wf_matrix m = list_all (\<lambda>entry. is_list (snd entry)) m"

definition allowed_member :: "pyval \<Rightarrow> pyval \<Rightarrow> bool" where
  "allowed_member v allowed =
     (case allowed of PList xs \<Rightarrow> list_ex (\<lambda>x. py_is_or_eq x v) xs | _ \<Rightarrow> False)"

definition violates :: "(string \<times> pyval) list \<Rightarrow> string \<times> pyval \<Rightarrow> bool" where
  "violates c entry =
     (case map_of c (fst entry) of
        None \<Rightarrow> True
      | Some v \<Rightarrow> \<not> allowed_member v (snd entry))"

fun renderable :: "pyval \<Rightarrow> bool" where
  "renderable (PInt i) = (length (str_nat (nat \<bar>i\<bar>)) \<le> int_max_str_digits)"
| "renderable (PList xs) = list_all renderable xs"
| "renderable (PDict kvs) = list_all (\<lambda>kv. renderable (snd kv)) kvs"
| "renderable _ = True"

definition reportable :: "(string \<times> pyval) list \<Rightarrow> string \<times> pyval \<Rightarrow> bool" where
  "reportable c entry =
     (case map_of c (fst entry) of
        None \<Rightarrow> True
      | Some v \<Rightarrow> allowed_member v (snd entry) \<or> (renderable v \<and> renderable (snd entry)))"

definition issue_for ::
  "(pyfloat \<Rightarrow> string) \<Rightarrow> (string \<times> pyval) list \<Rightarrow> string \<times> pyval \<Rightarrow> string" where
  "issue_for float_repr c entry =
     (case map_of c (fst entry) of
        None \<Rightarrow> missing_msg (fst entry)
      | Some v \<Rightarrow>
          (case incompatible_msg float_repr (fst entry) v (snd entry) of
             Inl e \<Rightarrow> []
           | Inr msg \<Rightarrow> msg))"

definition issue_about ::
  "(pyfloat \<Rightarrow> string) \<Rightarrow> (string \<times> pyval) list \<Rightarrow> string \<times> pyval \<Rightarrow> string \<Rightarrow> bool" where
  "issue_about float_repr c entry i =
     (case map_of c (fst entry) of
        None \<Rightarrow> i = missing_msg (fst entry)
      | Some v \<Rightarrow> incompatible_msg float_repr (fst entry) v (snd entry) = Inr i)"



text \<open>Membership when type distinctions are significant: the value is one of the
  elements of the allowed list.\<close>

definition spec_exact_member :: "pyval \<Rightarrow> pyval list \<Rightarrow> bool" where
  "spec_exact_member v allowed = (v \<in> set allowed)"

section \<open>The loaders\<close>

subsection \<open>\<^verbatim>\<open>os.path.splitext\<close> and \<^verbatim>\<open>str.lower\<close>\<close>

text \<open>
  \<^verbatim>\<open>posixpath.splitext\<close>: the extension starts at the last dot of the path, if that
  dot comes after the last \<^verbatim>\<open>/\<close> and some character between the two is not a dot.
  \<^verbatim>\<open>str.rfind\<close> gives the last index of a character, or \<open>-1\<close>.
\<close>

definition rfind :: "string \<Rightarrow> char \<Rightarrow> int" where
  "rfind s c =
     (if c \<in> set s then int (length s) - 1 - int (length (takeWhile (\<lambda>x. x \<noteq> c) (rev s)))
      else - 1)"

function skip_leading_dots :: "string \<Rightarrow> int \<Rightarrow> int \<Rightarrow> (string \<times> string) option" where
  "skip_leading_dots p filenameIndex dotIndex =
     (if filenameIndex < dotIndex
      then (if take 1 (drop (nat filenameIndex) p) \<noteq> ''.''
            then Some (take (nat dotIndex) p, drop (nat dotIndex) p)
            else skip_leading_dots p (filenameIndex + 1) dotIndex)
      else None)"
  by pat_completeness auto
termination
  by (relation "measure (\<lambda>(p, i, d). nat (d - i))") auto

declare skip_leading_dots.simps [simp del]

definition splitext :: "string \<Rightarrow> string \<times> string" where
  "splitext p =
     (let sepIndex = rfind p CHR ''/'';
          dotIndex = rfind p CHR ''.''
      in if dotIndex > sepIndex
         then (case skip_leading_dots p (sepIndex + 1) dotIndex of
                 Some r \<Rightarrow> r
               | None \<Rightarrow> (p, []))
         else (p, []))"

definition basename :: "string \<Rightarrow> string" where
  "basename p = drop (nat (rfind p CHR ''/'' + 1)) p"

text \<open>\<^verbatim>\<open>str.lower\<close> on the code points below 256: the letters \<^verbatim>\<open>A\<close> to \<^verbatim>\<open>Z\<close> and the
  capital letters from 192 to 222, the multiplication sign 215 apart, move up by 32.\<close>

definition is_upper :: "char \<Rightarrow> bool" where
  "is_upper c =
     (((65::nat) \<le> of_char c \<and> of_char c \<le> (90::nat)) \<or>
      ((192::nat) \<le> of_char c \<and> of_char c \<le> (222::nat) \<and> of_char c \<noteq> (215::nat)))"

definition lower_char :: "char \<Rightarrow> char" where
  "lower_char c = (if is_upper c then char_of (of_char c + (32::nat)) else c)"

definition lower :: "string \<Rightarrow> string" where
  "lower s = map lower_char s"

subsection \<open>\<^verbatim>\<open>load_config\<close> and \<^verbatim>\<open>load_compatibility_matrix\<close>\<close>

text \<open>
  The file system and the two parsers are outside the program, so they are parameters:
  \<open>py_open\<close> is \<^verbatim>\<open>open(path, 'r')\<close>, giving a file object or the exception it raises;
  \<open>json_load\<close> and \<open>yaml_safe_load\<close> are \<^verbatim>\<open>json.load\<close> and \<^verbatim>\<open>yaml.safe_load\<close> on
  the file object, giving the document or the exception they raise.
\<close>

definition unsupported_msg :: string where
  "unsupported_msg = ''Unsupported file type.  Must be JSON or YAML.''"

text \<open>The inner \<^verbatim>\<open>try\<close> blocks around the two parser calls.\<close>

definition decode_json :: "string \<Rightarrow> py_exception + pyval \<Rightarrow> raised + pyval" where
  "decode_json config_file r =
     (case r of
        Inr config_data \<Rightarrow> Inr config_data
      | Inl (JSONDecodeError e) \<Rightarrow>
          Inl (ConfigError (''Error decoding JSON in '' @ config_file @ '': '' @ e))
      | Inl x \<Rightarrow> Inl (Propagated x))"

definition decode_yaml :: "string \<Rightarrow> py_exception + pyval \<Rightarrow> raised + pyval" where
  "decode_yaml config_file r =
     (case r of
        Inr config_data \<Rightarrow> Inr config_data
      | Inl (YAMLError e) \<Rightarrow>
          Inl (ConfigError (''Error decoding YAML in '' @ config_file @ '': '' @ e))
      | Inl x \<Rightarrow> Inl (Propagated x))"

text \<open>The three \<^verbatim>\<open>except\<close> clauses that close \<^verbatim>\<open>load_config\<close>; a
  \<^verbatim>\<open>ConfigError\<close> raised inside is none of the three classes and passes.\<close>

definition config_except :: "string \<Rightarrow> raised + pyval \<Rightarrow> raised + pyval" where
  "config_except config_file r =
     (case r of
        Inl (Propagated FileNotFoundError) \<Rightarrow>
          Inl (ConfigError (''Configuration file not found: '' @ config_file))
      | Inl (Propagated PermissionError) \<Rightarrow>
          Inl (ConfigError
                (''Permission denied when trying to read configuration file: '' @ config_file))
      | Inl (Propagated (OSError e)) \<Rightarrow>
          Inl (ConfigError (''OS error when opening file: '' @ config_file @ ''. '' @ e))
      | _ \<Rightarrow> r)"

definition load_config ::
  "(string \<Rightarrow> py_exception + 'f) \<Rightarrow> ('f \<Rightarrow> py_exception + pyval) \<Rightarrow>
   ('f \<Rightarrow> py_exception + pyval) \<Rightarrow> string \<Rightarrow> raised + pyval" where
  "load_config py_open json_load yaml_safe_load config_file =
     config_except config_file
       (case py_open config_file of
          Inl x \<Rightarrow> Inl (Propagated x)
        | Inr f \<Rightarrow>
            (let file_extension = lower (snd (splitext config_file))
             in if file_extension = ''.json'' then decode_json config_file (json_load f)
                else if file_extension = ''.yaml'' \<or> file_extension = ''.yml''
                  then decode_yaml config_file (yaml_safe_load f)
                else Inl (ConfigError unsupported_msg)))"

definition decode_matrix_json :: "string \<Rightarrow> py_exception + pyval \<Rightarrow> raised + pyval" where
  "decode_matrix_json matrix_file r =
     (case r of
        Inr matrix_data \<Rightarrow> Inr matrix_data
      | Inl (JSONDecodeError e) \<Rightarrow>
          Inl (ConfigError
                (''Error decoding JSON in compatibility matrix file: '' @ matrix_file @
                 ''. '' @ e))
      | Inl x \<Rightarrow> Inl (Propagated x))"

definition matrix_except :: "string \<Rightarrow> raised + pyval \<Rightarrow> raised + pyval" where
  "matrix_except matrix_file r =
     (case r of
        Inl (Propagated FileNotFoundError) \<Rightarrow>
          Inl (ConfigError (''Compatibility matrix file not found: '' @ matrix_file))
      | Inl (Propagated PermissionError) \<Rightarrow>
          Inl (ConfigError
                (''Permission denied when trying to read compatibility matrix file: '' @
                 matrix_file))
      | Inl (Propagated (OSError e)) \<Rightarrow>
          Inl (ConfigError
                (''OS error when opening compatibility matrix file: '' @ matrix_file @
                 ''. '' @ e))
      | _ \<Rightarrow> r)"

definition load_compatibility_matrix ::
  "(string \<Rightarrow> py_exception + 'f) \<Rightarrow> ('f \<Rightarrow> py_exception + pyval) \<Rightarrow> string \<Rightarrow>
   raised + pyval" where
  "load_compatibility_matrix py_open json_load matrix_file =
     matrix_except matrix_file
       (case py_open matrix_file of
          Inl x \<Rightarrow> Inl (Propagated x)
        | Inr f \<Rightarrow> decode_matrix_json matrix_file (json_load f))"

section \<open>Properties of the validator\<close>

subsection \<open>When an issue text can be built\<close>

text \<open>
  Rendering fails with \<^verbatim>\<open>ValueError\<close> and with nothing else, and it succeeds
  exactly on the values in which no integer has more digits than the limit.
\<close>

lemma sequence_sum_Inl: "sequence_sum rs = Inl e \<Longrightarrow> Inl e \<in> set rs"
  by (induction rs arbitrary: e) (auto split: sum.splits)

lemma sequence_sum_ok: "(\<exists>xs. sequence_sum rs = Inr xs) \<longleftrightarrow> (\<forall>r\<in>set rs. \<exists>x. r = Inr x)"
  by (induction rs) (auto split: sum.splits)

lemma str_int_error: "str_int i = Inl e \<Longrightarrow> e = ValueError"
  by (auto simp: str_int_def split: if_splits)

lemma str_int_ok: "(\<exists>s. str_int i = Inr s) \<longleftrightarrow> length (str_nat (nat \<bar>i\<bar>)) \<le> int_max_str_digits"
  by (auto simp: str_int_def)

lemma py_repr_error: "py_repr fr v = Inl e \<Longrightarrow> e = ValueError"
proof (induction v arbitrary: e)
  case (PInt i)
  then show ?case by (simp add: str_int_error)
next
  case (PList xs)
  from PList.prems have "sequence_sum (map (py_repr fr) xs) = Inl e"
    by (simp split: sum.splits)
  then have "Inl e \<in> set (map (py_repr fr) xs)" by (rule sequence_sum_Inl)
  then obtain x where "x \<in> set xs" "py_repr fr x = Inl e" by auto
  then show ?case using PList.IH by blast
next
  case (PDict kvs)
  let ?f = "\<lambda>kv. case py_repr fr (snd kv) of
                    Inl e \<Rightarrow> Inl e
                  | Inr s \<Rightarrow> Inr (repr_str (fst kv) @ '': '' @ s)"
  from PDict.prems have "sequence_sum (map ?f kvs) = Inl e"
    by (simp split: sum.splits)
  then have "Inl e \<in> set (map ?f kvs)" by (rule sequence_sum_Inl)
  then obtain kv where kv: "kv \<in> set kvs" "?f kv = Inl e" by auto
  then have "py_repr fr (snd kv) = Inl e" by (simp split: sum.splits)
  moreover have "snd kv \<in> Basic_BNFs.snds kv" by (cases kv) simp
  ultimately show ?case using PDict.IH kv(1) by blast
qed simp_all

lemma py_repr_ok: "(\<exists>s. py_repr fr v = Inr s) \<longleftrightarrow> renderable v"
proof (induction v)
  case (PInt i)
  show ?case by (simp add: str_int_ok)
next
  case (PList xs)
  have "(\<exists>s. py_repr fr (PList xs) = Inr s) \<longleftrightarrow>
          (\<exists>ss. sequence_sum (map (py_repr fr) xs) = Inr ss)"
    by (auto split: sum.splits)
  also have "\<dots> \<longleftrightarrow> (\<forall>x\<in>set xs. \<exists>s. py_repr fr x = Inr s)"
    by (simp add: sequence_sum_ok)
  also have "\<dots> \<longleftrightarrow> (\<forall>x\<in>set xs. renderable x)"
    using PList.IH by blast
  finally show ?case by (simp add: list_all_iff)
next
  case (PDict kvs)
  let ?f = "\<lambda>kv. case py_repr fr (snd kv) of
                    Inl e \<Rightarrow> Inl e
                  | Inr s \<Rightarrow> Inr (repr_str (fst kv) @ '': '' @ s)"
  have f: "(\<exists>x. ?f kv = Inr x) \<longleftrightarrow> (\<exists>s. py_repr fr (snd kv) = Inr s)" for kv
    by (auto split: sum.splits)
  have "(\<exists>s. py_repr fr (PDict kvs) = Inr s) \<longleftrightarrow> (\<exists>ss. sequence_sum (map ?f kvs) = Inr ss)"
    by (auto split: sum.splits)
  also have "\<dots> \<longleftrightarrow> (\<forall>kv\<in>set kvs. \<exists>x. ?f kv = Inr x)"
    by (simp add: sequence_sum_ok)
  also have "\<dots> \<longleftrightarrow> (\<forall>kv\<in>set kvs. \<exists>s. py_repr fr (snd kv) = Inr s)"
    using f by blast
  also have "\<dots> \<longleftrightarrow> (\<forall>kv\<in>set kvs. renderable (snd kv))"
  proof -
    have "(\<exists>s. py_repr fr (snd kv) = Inr s) \<longleftrightarrow> renderable (snd kv)" if "kv \<in> set kvs" for kv
    proof -
      have "snd kv \<in> Basic_BNFs.snds kv" by (cases kv) simp
      with PDict.IH that show ?thesis by blast
    qed
    then show ?thesis by blast
  qed
  finally show ?case by (simp add: list_all_iff)
qed simp_all

lemma py_str_cases: "(\<exists>s. v = PStr s \<and> py_str fr v = Inr s) \<or> py_str fr v = py_repr fr v"
  by (cases v) (simp_all add: py_str_def)

lemma py_str_error: "py_str fr v = Inl e \<Longrightarrow> e = ValueError"
  using py_str_cases [of v fr] py_repr_error [of fr v e] by auto

lemma py_str_ok: "(\<exists>s. py_str fr v = Inr s) \<longleftrightarrow> renderable v"
proof (cases "\<exists>s. v = PStr s")
  case True
  then show ?thesis by (auto simp: py_str_def)
next
  case False
  with py_str_cases [of v fr] have "py_str fr v = py_repr fr v" by blast
  then show ?thesis by (simp only: py_repr_ok)
qed

lemma incompatible_msg_error: "incompatible_msg fr p v a = Inl e \<Longrightarrow> e = ValueError"
  by (auto simp: incompatible_msg_def split: sum.splits dest: py_str_error)

lemma incompatible_msg_ok:
  "(\<exists>t. incompatible_msg fr p v a = Inr t) \<longleftrightarrow> renderable v \<and> renderable a"
  using py_str_ok [of fr v] py_str_ok [of fr a]
  by (auto simp: incompatible_msg_def split: sum.splits)




subsection \<open>What the loop returns\<close>

text \<open>
  On a configuration dictionary and a matrix whose values are lists, the loop walks
  the entries in the order of the matrix. While the text of every violated entry can
  be built it collects the issue of every violated entry and logs the same text as a
  warning; at the first violated entry whose text cannot be built it raises
  \<^verbatim>\<open>ValueError\<close>, and the warnings logged before stay logged.
\<close>

lemma py_contains_dict_str [simp]:
  "py_contains (PDict c) (PStr p) = Inr (map_of c p \<noteq> None)"
  by simp

lemma validate_items_wf:
  "wf_matrix m \<Longrightarrow>
   validate_items fr (PDict c) m issues lg =
     (if list_all (reportable c) m
      then (Inr (issues @ map (issue_for fr c) (filter (violates c) m)),
            lg @ map (Pair WARNING) (map (issue_for fr c) (filter (violates c) m)))
      else (Inl ValueError,
            lg @ map (Pair WARNING)
                   (map (issue_for fr c)
                      (filter (violates c) (takeWhile (reportable c) m)))))"
proof (induction m arbitrary: issues lg)
  case Nil
  then show ?case by simp
next
  case (Cons entry m)
  obtain p a where entry: "entry = (p, a)" by (cases entry)
  from Cons.prems obtain xs where a: "a = PList xs" and wf: "wf_matrix m"
    by (cases a) (auto simp: wf_matrix_def entry)
  note IH = Cons.IH [OF wf]
  show ?case
  proof (cases "map_of c p")
    case None
    then have "reportable c entry" "violates c entry" "issue_for fr c entry = missing_msg p"
      by (simp_all add: reportable_def violates_def issue_for_def entry)
    with None show ?thesis
      by (simp add: entry a IH)
  next
    case (Some v)
    show ?thesis
    proof (cases "list_ex (\<lambda>x. py_is_or_eq x v) xs")
      case True
      with Some have "reportable c entry" "\<not> violates c entry"
        by (simp_all add: reportable_def violates_def allowed_member_def entry a)
      with Some True show ?thesis
        by (simp add: entry a IH)
    next
      case False
      with Some have viol: "violates c entry"
        by (simp add: violates_def allowed_member_def entry a)
      show ?thesis
      proof (cases "incompatible_msg fr p v a")
        case (Inl e)
        then have e: "e = ValueError" by (rule incompatible_msg_error)
        from Inl incompatible_msg_ok [of fr p v a] have "\<not> (renderable v \<and> renderable a)"
          by auto
        with Some False have "\<not> reportable c entry"
          by (simp add: reportable_def allowed_member_def entry a)
        moreover from Inl e have "incompatible_msg fr p v (PList xs) = Inl ValueError"
          by (simp add: a)
        ultimately show ?thesis using Some False
          by (simp add: entry a)
      next
        case (Inr t)
        with incompatible_msg_ok [of fr p v a] have "renderable v \<and> renderable a" by auto
        with Some have rep: "reportable c entry"
          by (simp add: reportable_def entry)
        from Some Inr have "issue_for fr c entry = t"
          by (simp add: issue_for_def entry)
        moreover from Inr have "incompatible_msg fr p v (PList xs) = Inr t"
          by (simp add: a)
        ultimately show ?thesis using Some False rep viol
          by (simp add: entry a IH)
      qed
    qed
  qed
qed

lemma validate_config_wf:
  "wf_matrix m \<Longrightarrow>
   validate_config fr (PDict c) (PDict m) =
     (if list_all (reportable c) m
      then (Inr (map (issue_for fr c) (filter (violates c) m)),
            map (Pair WARNING) (map (issue_for fr c) (filter (violates c) m)))
      else (Inl ValueError,
            map (Pair WARNING)
              (map (issue_for fr c) (filter (violates c) (takeWhile (reportable c) m)))))"
  by (simp add: validate_config_def validate_items_wf)






subsection \<open>Membership in the allowed list\<close>

text \<open>A string is the same as, or equal to, a string with the same characters and
  nothing else.\<close>

lemma py_is_or_eq_str_right: "py_is_or_eq x (PStr s) = (x = PStr s)"
  by (cases x) auto

lemma str_never_is_or_eq: "(\<forall>s. v \<noteq> PStr s) \<Longrightarrow> \<not> py_is_or_eq (PStr t) v"
  by (cases v) auto

lemma validate_config_single:
  assumes "map_of c p = Some v"
  shows "validate_config fr (PDict c) (PDict [(p, PList xs)]) =
           (if list_ex (\<lambda>x. py_is_or_eq x v) xs then (Inr [], [])
            else case incompatible_msg fr p v (PList xs) of
                   Inl e \<Rightarrow> (Inl e, [])
                 | Inr msg \<Rightarrow> (Inr [msg], [(WARNING, msg)]))"
  using assms by (simp add: validate_config_def split: sum.splits)

lemma single_accepted:
  assumes "map_of c p = Some v"
  shows "validate_config fr (PDict c) (PDict [(p, PList xs)]) = (Inr [], []) \<longleftrightarrow>
           list_ex (\<lambda>x. py_is_or_eq x v) xs"
proof (cases "incompatible_msg fr p v (PList xs)")
  case (Inl e)
  then show ?thesis by (simp add: validate_config_single [OF assms])
next
  case (Inr t)
  then show ?thesis by (simp add: validate_config_single [OF assms])
qed

lemma level_instance:
  "validate_config fr (PDict [(''level'', PStr ''8'')])
             (PDict [(''level'', PList [PInt 8])]) =
           (Inr [''Property '' @ apos @ ''level'' @ apos @ '' has incompatible value '' @
                 apos @ ''8'' @ apos @ ''. Allowed values: [8]''],
            [(WARNING, ''Property '' @ apos @ ''level'' @ apos @
                 '' has incompatible value '' @ apos @ ''8'' @ apos @
                 ''. Allowed values: [8]'')])"
proof -
  have s: "py_str fr (PList [PInt 8]) = Inr ''[8]''"
    by (simp add: py_str_def str_int_def str_nat.simps digit_char_def int_max_str_digits_def)
  have t: "py_str fr (PStr ''8'') = Inr ''8''" by (simp add: py_str_def)
  have i: "incompatible_msg fr ''level'' (PStr ''8'') (PList [PInt 8]) =
             Inr (''Property '' @ apos @ ''level'' @ apos @ '' has incompatible value '' @
                 apos @ ''8'' @ apos @ ''. Allowed values: [8]'')"
    by (simp add: incompatible_msg_def s t)
  have m: "map_of [(''level'', PStr ''8'')] ''level'' = Some (PStr ''8'')" by simp
  show ?thesis
    by (simp add: validate_config_single [OF m] i)
qed

lemma single_string:
  assumes "map_of c p = Some (PStr s)"
  shows "validate_config fr (PDict c) (PDict [(p, PList xs)]) = (Inr [], []) \<longleftrightarrow>
           PStr s \<in> set xs"
  by (simp add: single_accepted [OF assms] list_ex_iff py_is_or_eq_str_right)

lemma single_non_string:
  assumes "map_of c p = Some v" and "\<forall>s. v \<noteq> PStr s" and "\<forall>x\<in>set xs. \<exists>t. x = PStr t"
  shows "validate_config fr (PDict c) (PDict [(p, PList xs)]) \<noteq> (Inr [], [])"
proof -
  have "\<not> py_is_or_eq x v" if "x \<in> set xs" for x
  proof -
    from that assms(3) obtain t where "x = PStr t" by blast
    with str_never_is_or_eq [OF assms(2)] show ?thesis by simp
  qed
  then show ?thesis by (simp add: single_accepted [OF assms(1)] list_ex_iff)
qed

text \<open>
  C2, as the code has it. Against a matrix with one entry, a property that the
  configuration has is accepted exactly when some element of the allowed list is the
  same object as its value or equal to it, which is the membership test of a list. A
  string is a member exactly when the list holds that string, and a value that is not
  a string is never a member of a list of strings: so the configuration with
  \<^verbatim>\<open>level\<close> the string \<^verbatim>\<open>8\<close> is reported against the matrix that allows the number
  \<^verbatim>\<open>8\<close>.
\<close>

theorem membership_by_identity_or_equality:
  assumes "map_of c p = Some v"
  shows "validate_config fr (PDict c) (PDict [(p, PList xs)]) =
           (if list_ex (\<lambda>x. py_is_or_eq x v) xs then (Inr [], [])
            else case incompatible_msg fr p v (PList xs) of
                   Inl e \<Rightarrow> (Inl e, [])
                 | Inr msg \<Rightarrow> (Inr [msg], [(WARNING, msg)])) \<and>
         (\<forall>s. v = PStr s \<longrightarrow>
            (validate_config fr (PDict c) (PDict [(p, PList xs)]) = (Inr [], []) \<longleftrightarrow>
             PStr s \<in> set xs)) \<and>
         ((\<forall>s. v \<noteq> PStr s) \<and> (\<forall>x\<in>set xs. \<exists>t. x = PStr t) \<longrightarrow>
            validate_config fr (PDict c) (PDict [(p, PList xs)]) \<noteq> (Inr [], [])) \<and>
         validate_config fr (PDict [(''level'', PStr ''8'')])
             (PDict [(''level'', PList [PInt 8])]) =
           (Inr [''Property '' @ apos @ ''level'' @ apos @ '' has incompatible value '' @
                 apos @ ''8'' @ apos @ ''. Allowed values: [8]''],
            [(WARNING, ''Property '' @ apos @ ''level'' @ apos @
                 '' has incompatible value '' @ apos @ ''8'' @ apos @
                 ''. Allowed values: [8]'')])"
proof (intro conjI allI impI)
  show "validate_config fr (PDict c) (PDict [(p, PList xs)]) =
           (if list_ex (\<lambda>x. py_is_or_eq x v) xs then (Inr [], [])
            else case incompatible_msg fr p v (PList xs) of
                   Inl e \<Rightarrow> (Inl e, [])
                 | Inr msg \<Rightarrow> (Inr [msg], [(WARNING, msg)]))"
    by (rule validate_config_single [OF assms])
next
  fix s assume "v = PStr s"
  with assms have "map_of c p = Some (PStr s)" by simp
  then show "validate_config fr (PDict c) (PDict [(p, PList xs)]) = (Inr [], []) \<longleftrightarrow>
          PStr s \<in> set xs"
    by (rule single_string)
next
  assume a: "(\<forall>s. v \<noteq> PStr s) \<and> (\<forall>x\<in>set xs. \<exists>t. x = PStr t)"
  show "validate_config fr (PDict c) (PDict [(p, PList xs)]) \<noteq> (Inr [], [])"
    by (rule single_non_string [OF assms conjunct1 [OF a] conjunct2 [OF a]])
next
  show "validate_config fr (PDict [(''level'', PStr ''8'')])
             (PDict [(''level'', PList [PInt 8])]) =
           (Inr [''Property '' @ apos @ ''level'' @ apos @ '' has incompatible value '' @
                 apos @ ''8'' @ apos @ ''. Allowed values: [8]''],
            [(WARNING, ''Property '' @ apos @ ''level'' @ apos @
                 '' has incompatible value '' @ apos @ ''8'' @ apos @
                 ''. Allowed values: [8]'')])"
    by (rule level_instance)
qed

theorem membership_by_identity_or_equality_witness:
  "map_of [(''env'', PStr ''prod'')] ''env'' = Some (PStr ''prod'') \<and>
   PStr ''prod'' \<in> set [PInt 1, PStr ''prod''] \<and>
   validate_config (\<lambda>f. []) (PDict [(''env'', PStr ''prod'')])
     (PDict [(''env'', PList [PInt 1, PStr ''prod''])]) = (Inr [], []) \<and>
   map_of [(''level'', PInt 8)] ''level'' = Some (PInt 8) \<and>
   validate_config (\<lambda>f. []) (PDict [(''level'', PInt 8)])
     (PDict [(''level'', PList [PStr ''8''])]) \<noteq> (Inr [], [])"
proof -
  have h: "map_of [(''env'', PStr ''prod'')] ''env'' = Some (PStr ''prod'')" by simp
  have m: "PStr ''prod'' \<in> set [PInt 1, PStr ''prod'']" by simp
  note t = membership_by_identity_or_equality [OF h, of "\<lambda>f. []" "[PInt 1, PStr ''prod'']"]
  note t2 = conjunct1 [OF conjunct2 [OF t]]
  from t2 have "validate_config (\<lambda>f. []) (PDict [(''env'', PStr ''prod'')])
     (PDict [(''env'', PList [PInt 1, PStr ''prod''])]) = (Inr [], []) \<longleftrightarrow>
     PStr ''prod'' \<in> set [PInt 1, PStr ''prod'']"
    by (rule allE [where x = "''prod''"]) (rule mp, assumption, rule refl)
  with m have a: "validate_config (\<lambda>f. []) (PDict [(''env'', PStr ''prod'')])
     (PDict [(''env'', PList [PInt 1, PStr ''prod''])]) = (Inr [], [])"
    by (rule iffD2 [rotated])
  have k: "map_of [(''level'', PInt 8)] ''level'' = Some (PInt 8)" by simp
  note u = membership_by_identity_or_equality [OF k, of "\<lambda>f. []" "[PStr ''8'']"]
  have n: "(\<forall>s. PInt 8 \<noteq> PStr s) \<and> (\<forall>x\<in>set [PStr ''8'']. \<exists>t. x = PStr t)" by simp
  from conjunct1 [OF conjunct2 [OF conjunct2 [OF u]]] n
  have b: "validate_config (\<lambda>f. []) (PDict [(''level'', PInt 8)])
     (PDict [(''level'', PList [PStr ''8''])]) \<noteq> (Inr [], [])"
    by (rule mp)
  from h m a k b show ?thesis by (intro conjI)
qed

text \<open>
  Not every distinction of type is significant: \<^verbatim>\<open>True\<close> is a member of the
  allowed list \<^verbatim>\<open>[1]\<close>, and the float \<^verbatim>\<open>8.0\<close> of the allowed list \<^verbatim>\<open>[8]\<close>, although
  neither is one of the elements.
\<close>

theorem exact_type_counterexample:
  "\<not> spec_exact_member (PBool True) [PInt 1] \<and>
   validate_config (\<lambda>f. []) (PDict [(''flag'', PBool True)])
     (PDict [(''flag'', PList [PInt 1])]) = (Inr [], []) \<and>
   \<not> spec_exact_member (PFloat (Finite False 8 0)) [PInt 8] \<and>
   validate_config (\<lambda>f. []) (PDict [(''level'', PFloat (Finite False 8 0))])
     (PDict [(''level'', PList [PInt 8])]) = (Inr [], [])"
proof -
  have 1: "\<not> spec_exact_member (PBool True) [PInt 1]"
    by (simp add: spec_exact_member_def)
  have 2: "validate_config (\<lambda>f. []) (PDict [(''flag'', PBool True)])
     (PDict [(''flag'', PList [PInt 1])]) = (Inr [], [])"
    by (simp add: validate_config_def)
  have 3: "\<not> spec_exact_member (PFloat (Finite False 8 0)) [PInt 8]"
    by (simp add: spec_exact_member_def)
  have 4: "validate_config (\<lambda>f. []) (PDict [(''level'', PFloat (Finite False 8 0))])
     (PDict [(''level'', PList [PInt 8])]) = (Inr [], [])"
    by (simp add: validate_config_def dyadic_eq_def signed_def)
  from 1 2 3 4 show ?thesis by (intro conjI)
qed

subsection \<open>Properties that the matrix does not name\<close>

text \<open>
  These two facts need no assumption on the matrix or on the values: the loop reads
  the configuration at the keys of the matrix only, and whatever it appends is the
  issue of the entry it is at.
\<close>

lemma validate_items_agree:
  "\<forall>p\<in>set (map fst m). map_of c' p = map_of c p \<Longrightarrow>
   validate_items fr (PDict c') m issues lg = validate_items fr (PDict c) m issues lg"
proof (induction m arbitrary: issues lg)
  case Nil
  show ?case by simp
next
  case (Cons entry m)
  obtain p a where entry: "entry = (p, a)" by (cases entry)
  from Cons.prems have h: "map_of c' p = map_of c p"
    and r: "\<forall>p\<in>set (map fst m). map_of c' p = map_of c p"
    by (simp_all add: entry)
  note IH = Cons.IH [OF r]
  have g: "py_getitem (PDict c') p = py_getitem (PDict c) p"
    by (simp add: h)
  have k: "py_contains (PDict c') (PStr p) = py_contains (PDict c) (PStr p)"
    by (simp add: h)
  show ?case
    by (simp only: entry validate_items.simps g k IH)
qed

lemma validate_items_about:
  "validate_items fr (PDict c) m issues lg = (Inr out, lg') \<Longrightarrow>
   \<exists>new. out = issues @ new \<and> (\<forall>i\<in>set new. \<exists>entry\<in>set m. issue_about fr c entry i)"
proof (induction m arbitrary: issues lg)
  case Nil
  then show ?case by simp
next
  case (Cons entry m)
  obtain p a where entry: "entry = (p, a)" by (cases entry)
  show ?case
  proof (cases "map_of c p")
    case None
    with Cons.prems have
      "validate_items fr (PDict c) m (issues @ [missing_msg p])
         (lg @ [(WARNING, missing_msg p)]) = (Inr out, lg')"
      by (simp add: entry)
    from Cons.IH [OF this] obtain new where
      new: "out = (issues @ [missing_msg p]) @ new"
        "\<forall>i\<in>set new. \<exists>entry\<in>set m. issue_about fr c entry i" by blast
    from None have "issue_about fr c entry (missing_msg p)"
      by (simp add: issue_about_def entry)
    with new have "out = issues @ (missing_msg p # new) \<and>
        (\<forall>i\<in>set (missing_msg p # new). \<exists>e\<in>set (entry # m). issue_about fr c e i)"
      by auto
    then show ?thesis by blast
  next
    case (Some v)
    show ?thesis
    proof (cases "py_contains a v")
      case (Inl e)
      with Some Cons.prems show ?thesis by (simp add: entry)
    next
      case (Inr b)
      show ?thesis
      proof (cases b)
        case True
        with Some Inr Cons.prems have
          "validate_items fr (PDict c) m issues lg = (Inr out, lg')"
          by (simp add: entry)
        from Cons.IH [OF this] show ?thesis by auto
      next
        case False
        show ?thesis
        proof (cases "incompatible_msg fr p v a")
          case (Inl e)
          with Some Inr False Cons.prems show ?thesis by (simp add: entry)
        next
          case t: (Inr t)
          with Some Inr False Cons.prems have
            "validate_items fr (PDict c) m (issues @ [t]) (lg @ [(WARNING, t)]) =
               (Inr out, lg')"
            by (simp add: entry)
          from Cons.IH [OF this] obtain new where
            new: "out = (issues @ [t]) @ new"
              "\<forall>i\<in>set new. \<exists>entry\<in>set m. issue_about fr c entry i" by blast
          from Some t have "issue_about fr c entry t"
            by (simp add: issue_about_def entry)
          with new have "out = issues @ (t # new) \<and>
              (\<forall>i\<in>set (t # new). \<exists>e\<in>set (entry # m). issue_about fr c e i)"
            by auto
          then show ?thesis by blast
        qed
      qed
    qed
  qed
qed

lemma validate_config_about:
  assumes "validate_config fr (PDict c) (PDict m) = (Inr issues, lg)"
  shows "\<forall>i\<in>set issues. \<exists>entry\<in>set m. issue_about fr c entry i"
proof -
  from assms have "validate_items fr (PDict c) m [] [] = (Inr issues, lg)"
    by (simp add: validate_config_def)
  from validate_items_about [OF this] show ?thesis by simp
qed

lemma validate_config_agree:
  assumes "\<forall>p\<in>set (map fst m). map_of c' p = map_of c p"
  shows "validate_config fr (PDict c') (PDict m) = validate_config fr (PDict c) (PDict m)"
  using validate_items_agree [OF assms] by (simp add: validate_config_def)

text \<open>
  C4. Every issue that \<^verbatim>\<open>validate_config\<close> returns is the issue of an entry of the
  matrix: the text for a missing property with that entry's name, or the text for an
  incompatible value with that entry's name, the configuration's value under that name
  and that entry's allowed list. The whole outcome, issues, warnings or exception, is
  the same for every configuration that agrees on the keys of the matrix, so a property
  that occurs in the configuration and not in the matrix produces no issue. A list of
  issues is returned whenever the matrix values are lists and the texts can be built.
\<close>

theorem unconstrained_properties_ignored:
  "(\<forall>issues lg. validate_config fr (PDict c) (PDict m) = (Inr issues, lg) \<longrightarrow>
      (\<forall>i\<in>set issues. \<exists>entry\<in>set m. issue_about fr c entry i)) \<and>
   (\<forall>c'. (\<forall>p\<in>set (map fst m). map_of c' p = map_of c p) \<longrightarrow>
      validate_config fr (PDict c') (PDict m) = validate_config fr (PDict c) (PDict m)) \<and>
   (wf_matrix m \<and> list_all (reportable c) m \<longrightarrow>
      (\<exists>issues lg. validate_config fr (PDict c) (PDict m) = (Inr issues, lg)))"
proof (intro conjI allI impI)
  fix issues lg
  assume "validate_config fr (PDict c) (PDict m) = (Inr issues, lg)"
  then show "\<forall>i\<in>set issues. \<exists>entry\<in>set m. issue_about fr c entry i"
    by (rule validate_config_about)
next
  fix c' assume "\<forall>p\<in>set (map fst m). map_of c' p = map_of c p"
  then show "validate_config fr (PDict c') (PDict m) = validate_config fr (PDict c) (PDict m)"
    by (rule validate_config_agree)
next
  assume a: "wf_matrix m \<and> list_all (reportable c) m"
  from conjunct2 [OF a] show "\<exists>issues lg. validate_config fr (PDict c) (PDict m) = (Inr issues, lg)"
    by (simp add: validate_config_wf [OF conjunct1 [OF a]])
qed

theorem unconstrained_properties_ignored_witness:
  "validate_config (\<lambda>f. []) (PDict [(''env'', PStr ''prod''), (''extra'', PStr ''ignored'')])
     (PDict [(''env'', PList [PStr ''prod'', PStr ''staging'']),
             (''region'', PList [PStr ''us''])]) =
     (Inr [missing_msg ''region''], [(WARNING, missing_msg ''region'')]) \<and>
   (\<exists>entry. entry \<in> set [(''env'', PList [PStr ''prod'', PStr ''staging'']),
                            (''region'', PList [PStr ''us''])] \<and>
      issue_about (\<lambda>f. []) [(''env'', PStr ''prod''), (''extra'', PStr ''ignored'')] entry
        (missing_msg ''region'')) \<and>
   validate_config (\<lambda>f. []) (PDict [(''env'', PStr ''prod'')])
     (PDict [(''env'', PList [PStr ''prod'', PStr ''staging'']),
             (''region'', PList [PStr ''us''])]) =
     (Inr [missing_msg ''region''], [(WARNING, missing_msg ''region'')])"
proof -
  let ?m = "[(''env'', PList [PStr ''prod'', PStr ''staging'']),
             (''region'', PList [PStr ''us''])]"
  let ?c = "[(''env'', PStr ''prod''), (''extra'', PStr ''ignored'')]"
  let ?fr = "\<lambda>f::pyfloat. []::string"
  note t = unconstrained_properties_ignored [of ?fr ?c ?m]
  have r: "validate_config ?fr (PDict ?c) (PDict ?m) =
             (Inr [missing_msg ''region''], [(WARNING, missing_msg ''region'')])"
    by (simp add: validate_config_def)
  from conjunct1 [OF t] r
  have "\<forall>i\<in>set [missing_msg ''region'']. \<exists>entry\<in>set ?m. issue_about ?fr ?c entry i"
    by blast
  then have a: "\<exists>entry. entry \<in> set ?m \<and> issue_about ?fr ?c entry (missing_msg ''region'')"
    by (simp only: list.set ball_simps bex_simps Bex_def) 
  have "\<forall>p\<in>set (map fst ?m). map_of [(''env'', PStr ''prod'')] p = map_of ?c p" by simp
  with conjunct1 [OF conjunct2 [OF t]]
  have "validate_config ?fr (PDict [(''env'', PStr ''prod'')]) (PDict ?m) =
          validate_config ?fr (PDict ?c) (PDict ?m)"
    by blast
  with r have b: "validate_config ?fr (PDict [(''env'', PStr ''prod'')]) (PDict ?m) =
          (Inr [missing_msg ''region''], [(WARNING, missing_msg ''region'')])"
    by simp
  from r a b show ?thesis by (intro conjI)
qed

subsection \<open>The empty allowed list\<close>







subsection \<open>Order and text of the issues\<close>








subsection \<open>Totality and effects\<close>





section \<open>Properties of the loaders\<close>

subsection \<open>The extension of a path\<close>

lemma takeWhile_length_split:
  "length (takeWhile P xs) + length (dropWhile P xs) = length xs"
  by (induction xs) simp_all

lemma rfind_ge: "- 1 \<le> rfind s c"
  using takeWhile_length_split [of "\<lambda>x. x \<noteq> c" "rev s"]
  by (cases "dropWhile (\<lambda>x. x \<noteq> c) (rev s)") (auto simp add: rfind_def)

lemma rfind_less: "rfind s c < int (length s)"
  by (simp add: rfind_def)

lemma rfind_append_absent:
  assumes "c \<notin> set e"
  shows "rfind (s @ e) c = rfind s c"
proof (cases "c \<in> set s")
  case True
  have "takeWhile (\<lambda>x. x \<noteq> c) (rev e @ rev s) = rev e @ takeWhile (\<lambda>x. x \<noteq> c) (rev s)"
    by (rule takeWhile_append2) (use assms in auto)
  with True show ?thesis by (simp add: rfind_def)
next
  case False
  with assms show ?thesis by (simp add: rfind_def)
qed

lemma rfind_last: "rfind (s @ [c]) c = int (length s)"
  by (simp add: rfind_def)

lemma skip_leading_dots_found:
  assumes "0 \<le> i" "nat i \<le> k" "int k < d" "d \<le> int (length p)" "p ! k \<noteq> CHR ''.''"
  shows "skip_leading_dots p i d = Some (take (nat d) p, drop (nat d) p)"
  using assms
proof (induction p i d rule: skip_leading_dots.induct)
  case (1 p i d)
  from "1.prems" have lt: "i < d" and len: "nat i < length p" by auto
  then have hd: "take 1 (drop (nat i) p) = [p ! nat i]"
    by (simp add: Cons_nth_drop_Suc [symmetric])
  show ?case
  proof (cases "p ! nat i = CHR ''.''")
    case True
    with "1.prems" have "nat i \<noteq> k" by auto
    with "1.prems" have "nat (i + 1) \<le> k" "0 \<le> i + 1" by auto
    with "1.IH" [OF lt] True hd "1.prems"
    have "skip_leading_dots p (i + 1) d = Some (take (nat d) p, drop (nat d) p)" by simp
    with lt hd True show ?thesis
      by (subst skip_leading_dots.simps) simp
  next
    case False
    with lt hd show ?thesis
      by (subst skip_leading_dots.simps) simp
  qed
qed

text \<open>
  A path that ends in a dot and a dot-free, slash-free suffix has that suffix as its
  extension, provided its last component has a character other than a dot before it.
\<close>

lemma splitext_suffix:
  assumes "CHR ''.'' \<notin> set e" "CHR ''/'' \<notin> set e"
    and "\<exists>c\<in>set (basename stem). c \<noteq> CHR ''.''"
  shows "splitext (stem @ ''.'' @ e) = (stem, ''.'' @ e)"
proof -
  let ?p = "stem @ ''.'' @ e"
  have dot: "rfind ?p CHR ''.'' = int (length stem)"
    using rfind_append_absent [OF assms(1), of "stem @ ''.''"] rfind_last [of stem "CHR ''.''"]
    by simp
  have "CHR ''/'' \<notin> set (''.'' @ e)" using assms(2) by simp
  then have sep: "rfind ?p CHR ''/'' = rfind stem CHR ''/''"
    by (rule rfind_append_absent)
  define n where "n = nat (rfind stem CHR ''/'' + 1)"
  from assms(3) obtain c where c: "c \<in> set (drop n stem)" "c \<noteq> CHR ''.''"
    by (auto simp: basename_def n_def)
  then obtain j where j: "j < length (drop n stem)" "drop n stem ! j = c"
    by (auto simp: in_set_conv_nth)
  then have k: "n + j < length stem" "stem ! (n + j) = c" by auto
  have ge: "0 \<le> rfind stem CHR ''/'' + 1" using rfind_ge [of stem "CHR ''/''"] by simp
  have pk: "?p ! (n + j) = stem ! (n + j)" using k(1) by (simp add: nth_append)
  have "skip_leading_dots ?p (rfind stem CHR ''/'' + 1) (int (length stem)) =
          Some (take (nat (int (length stem))) ?p, drop (nat (int (length stem))) ?p)"
  proof (rule skip_leading_dots_found [where k = "n + j"])
    show "0 \<le> rfind stem CHR ''/'' + 1" by (rule ge)
    show "nat (rfind stem CHR ''/'' + 1) \<le> n + j" by (simp add: n_def)
    show "int (n + j) < int (length stem)" using k(1) by (simp only: of_nat_less_iff)
    show "int (length stem) \<le> int (length ?p)" by simp
    show "?p ! (n + j) \<noteq> CHR ''.''" using pk k(2) c(2) by simp
  qed
  moreover have "rfind stem CHR ''/'' < int (length stem)" by (rule rfind_less)
  ultimately show ?thesis
    using dot sep by (simp add: splitext_def Let_def)
qed

lemma lower_char_fixes [simp]:
  "lower_char CHR ''.'' = CHR ''.''" "lower_char CHR ''/'' = CHR ''/''"
  by (simp_all add: lower_char_def is_upper_def)

lemma lower_no_dot_slash:
  assumes "lower e = w" "CHR ''.'' \<notin> set w" "CHR ''/'' \<notin> set w"
  shows "CHR ''.'' \<notin> set e \<and> CHR ''/'' \<notin> set e"
proof -
  have "c \<in> set e \<Longrightarrow> lower_char c \<in> set w" for c
    using assms(1) by (auto simp: lower_def)
  from this [of "CHR ''.''"] this [of "CHR ''/''"] assms(2,3) show ?thesis by auto
qed

text \<open>
  Lowercasing a path and taking its extension commute: \<^verbatim>\<open>str.lower\<close> moves no dot
  and no slash.
\<close>

lemma lower_char_eq_dot [simp]: "lower_char x = CHR ''.'' \<longleftrightarrow> x = CHR ''.''"
proof
  assume a: "lower_char x = CHR ''.''"
  show "x = CHR ''.''"
  proof (cases "is_upper x")
    case True
    with a have "char_of (of_char x + (32::nat)) = CHR ''.''" by (simp add: lower_char_def)
    then have "of_char (char_of (of_char x + (32::nat)) :: char) = (of_char CHR ''.'' :: nat)"
      by simp
    then have "(of_char x + (32::nat)) mod 256 = of_char CHR ''.''"
      by (simp only: of_char_of)
    moreover from True have "(of_char x :: nat) + 32 < 256"
      by (auto simp: is_upper_def)
    ultimately have "(of_char x :: nat) + 32 = of_char CHR ''.''" by simp
    with True show ?thesis by (auto simp: is_upper_def)
  next
    case False
    with a show ?thesis by (simp add: lower_char_def)
  qed
qed simp

lemma lower_char_eq_slash [simp]: "lower_char x = CHR ''/'' \<longleftrightarrow> x = CHR ''/''"
proof
  assume a: "lower_char x = CHR ''/''"
  show "x = CHR ''/''"
  proof (cases "is_upper x")
    case True
    with a have "char_of (of_char x + (32::nat)) = CHR ''/''" by (simp add: lower_char_def)
    then have "of_char (char_of (of_char x + (32::nat)) :: char) = (of_char CHR ''/'' :: nat)"
      by simp
    then have "(of_char x + (32::nat)) mod 256 = of_char CHR ''/''"
      by (simp only: of_char_of)
    moreover from True have "(of_char x :: nat) + 32 < 256"
      by (auto simp: is_upper_def)
    ultimately have "(of_char x :: nat) + 32 = of_char CHR ''/''" by simp
    with True show ?thesis by (auto simp: is_upper_def)
  next
    case False
    with a show ?thesis by (simp add: lower_char_def)
  qed
qed simp





subsection \<open>Dispatch and failure order\<close>

lemma config_except_not_unsupported:
  assumes "r \<noteq> Inl (ConfigError unsupported_msg)"
  shows "config_except config_file r \<noteq> Inl (ConfigError unsupported_msg)"
  using assms
  by (auto simp: config_except_def unsupported_msg_def
      split: sum.splits raised.splits py_exception.splits)

lemma decode_json_not_unsupported:
  "decode_json config_file r \<noteq> Inl (ConfigError unsupported_msg)"
  by (auto simp: decode_json_def unsupported_msg_def split: sum.splits py_exception.splits)

lemma decode_yaml_not_unsupported:
  "decode_yaml config_file r \<noteq> Inl (ConfigError unsupported_msg)"
  by (auto simp: decode_yaml_def unsupported_msg_def split: sum.splits py_exception.splits)

lemma load_config_opened:
  assumes "py_open config_file = Inr f"
  shows "load_config py_open json_load yaml_safe_load config_file =
           (if lower (snd (splitext config_file)) = ''.json''
            then config_except config_file (decode_json config_file (json_load f))
            else if lower (snd (splitext config_file)) = ''.yaml'' \<or>
                    lower (snd (splitext config_file)) = ''.yml''
              then config_except config_file (decode_yaml config_file (yaml_safe_load f))
            else Inl (ConfigError unsupported_msg))"
  using assms by (simp add: load_config_def Let_def config_except_def)

text \<open>
  C9. The file is opened before the extension is looked at: a path that does not
  exist fails with the not-found \<^verbatim>\<open>ConfigError\<close>, whatever its extension.
\<close>

theorem not_found_takes_precedence:
  assumes "py_open config_file = Inl FileNotFoundError"
  shows "load_config py_open json_load yaml_safe_load config_file =
           Inl (ConfigError (''Configuration file not found: '' @ config_file))"
  using assms by (simp add: load_config_def config_except_def)

theorem not_found_takes_precedence_witness:
  "lower (snd (splitext ''settings.toml'')) = ''.toml'' \<and>
   load_config (\<lambda>p. Inl FileNotFoundError :: py_exception + string)
     (\<lambda>f. Inr PNone) (\<lambda>f. Inr PNone) ''settings.toml'' =
     Inl (ConfigError ''Configuration file not found: settings.toml'')"
proof -
  have e: "lower (snd (splitext ''settings.toml'')) = ''.toml''" by code_simp
  have o: "(\<lambda>p. Inl FileNotFoundError :: py_exception + string) ''settings.toml'' =
             Inl FileNotFoundError" by simp
  from not_found_takes_precedence [of "\<lambda>p. Inl FileNotFoundError :: py_exception + string", OF o]
  show ?thesis using e by simp
qed

text \<open>
  C6, as the code has it. For a path that opens, the lowercased extension selects the
  parser: \<^verbatim>\<open>.json\<close> the JSON parser, \<^verbatim>\<open>.yaml\<close> and \<^verbatim>\<open>.yml\<close> the YAML parser, and
  any other extension fails with the unsupported-type \<^verbatim>\<open>ConfigError\<close>.
\<close>

theorem load_config_dispatch:
  assumes "py_open config_file = Inr f"
  shows "(lower (snd (splitext config_file)) = ''.json'' \<longrightarrow>
            load_config py_open json_load yaml_safe_load config_file =
              config_except config_file (decode_json config_file (json_load f))) \<and>
         (lower (snd (splitext config_file)) = ''.yaml'' \<or>
          lower (snd (splitext config_file)) = ''.yml'' \<longrightarrow>
            load_config py_open json_load yaml_safe_load config_file =
              config_except config_file (decode_yaml config_file (yaml_safe_load f))) \<and>
         (lower (snd (splitext config_file)) \<notin> {''.json'', ''.yaml'', ''.yml''} \<longrightarrow>
            load_config py_open json_load yaml_safe_load config_file =
              Inl (ConfigError unsupported_msg))"
  using assms by (simp add: load_config_opened [of py_open config_file f])

theorem load_config_dispatch_witness:
  "lower (snd (splitext ''config.toml'')) \<notin> {''.json'', ''.yaml'', ''.yml''} \<and>
   load_config (\<lambda>p. Inr ''mode = 1'' :: py_exception + string)
     (\<lambda>f. Inr PNone) (\<lambda>f. Inr PNone) ''config.toml'' =
     Inl (ConfigError ''Unsupported file type.  Must be JSON or YAML.'')"
proof -
  have e: "lower (snd (splitext ''config.toml'')) = ''.toml''" by code_simp
  have o: "(\<lambda>p. Inr ''mode = 1'' :: py_exception + string) ''config.toml'' = Inr ''mode = 1''"
    by simp
  from load_config_dispatch [of "\<lambda>p. Inr ''mode = 1'' :: py_exception + string"
      "''config.toml''" "''mode = 1''" "\<lambda>f. Inr PNone" "\<lambda>f. Inr PNone", OF o] e
  show ?thesis by (simp add: unsupported_msg_def)
qed

text \<open>
  Without the file, an unsupported extension does not give the unsupported-type
  error: \<^verbatim>\<open>config.toml\<close> that does not exist fails as not found.
\<close>

theorem unsupported_needs_open_counterexample:
  "lower (snd (splitext ''config.toml'')) \<notin> {''.json'', ''.yaml'', ''.yml''} \<and>
   load_config (\<lambda>p. Inl FileNotFoundError :: py_exception + string)
     (\<lambda>f. Inr PNone) (\<lambda>f. Inr PNone) ''config.toml'' \<noteq> Inl (ConfigError unsupported_msg)"
proof -
  have "lower (snd (splitext ''config.toml'')) = ''.toml''" by code_simp
  then show ?thesis
    by (simp add: load_config_def config_except_def unsupported_msg_def)
qed

text \<open>
  A readable path that ends in a dot and any spelling of \<^verbatim>\<open>json\<close>, \<^verbatim>\<open>yaml\<close> or
  \<^verbatim>\<open>yml\<close> in upper or lower case, after a file name that is not made of dots only,
  goes to the corresponding parser.
\<close>

lemma suffix_selects_parser:
  assumes "py_open (stem @ ''.'' @ e) = Inr f"
    and "\<exists>c\<in>set (basename stem). c \<noteq> CHR ''.''"
  shows "(lower e = ''json'' \<longrightarrow>
            load_config py_open json_load yaml_safe_load (stem @ ''.'' @ e) =
              config_except (stem @ ''.'' @ e)
                (decode_json (stem @ ''.'' @ e) (json_load f))) \<and>
         (lower e = ''yaml'' \<or> lower e = ''yml'' \<longrightarrow>
            load_config py_open json_load yaml_safe_load (stem @ ''.'' @ e) =
              config_except (stem @ ''.'' @ e)
                (decode_yaml (stem @ ''.'' @ e) (yaml_safe_load f))) \<and>
         (lower e = ''json'' \<or> lower e = ''yaml'' \<or> lower e = ''yml'' \<longrightarrow>
            load_config py_open json_load yaml_safe_load (stem @ ''.'' @ e) \<noteq>
              Inl (ConfigError unsupported_msg))"
proof -
  let ?p = "stem @ ''.'' @ e"
  have ext: "lower (snd (splitext ?p)) = ''.'' @ lower e"
    if "lower e = w" "CHR ''.'' \<notin> set w" "CHR ''/'' \<notin> set w" for w
  proof -
    from lower_no_dot_slash [OF that] have "CHR ''.'' \<notin> set e" "CHR ''/'' \<notin> set e"
      by simp_all
    from splitext_suffix [OF this assms(2)] show ?thesis
      by (simp add: lower_def)
  qed
  have j: "lower (snd (splitext ?p)) = ''.json''" if "lower e = ''json''"
    using ext [OF that] that by simp
  have y: "lower (snd (splitext ?p)) = ''.yaml''" if "lower e = ''yaml''"
    using ext [OF that] that by simp
  have m: "lower (snd (splitext ?p)) = ''.yml''" if "lower e = ''yml''"
    using ext [OF that] that by simp
  note lc = load_config_opened [of py_open ?p f json_load yaml_safe_load, OF assms(1)]
  have 1: "load_config py_open json_load yaml_safe_load ?p =
             config_except ?p (decode_json ?p (json_load f))" if "lower e = ''json''"
    using lc j [OF that] by simp
  have 2: "load_config py_open json_load yaml_safe_load ?p =
             config_except ?p (decode_yaml ?p (yaml_safe_load f))"
    if "lower e = ''yaml'' \<or> lower e = ''yml''"
    using lc that y m by auto
  have 3: "load_config py_open json_load yaml_safe_load ?p \<noteq> Inl (ConfigError unsupported_msg)"
    if "lower e = ''json'' \<or> lower e = ''yaml'' \<or> lower e = ''yml''"
  proof (cases "lower e = ''json''")
    case True
    show ?thesis
      unfolding 1 [OF True]
      by (rule config_except_not_unsupported) (rule decode_json_not_unsupported)
  next
    case False
    with that have yy: "lower e = ''yaml'' \<or> lower e = ''yml''" by simp
    show ?thesis
      unfolding 2 [OF yy]
      by (rule config_except_not_unsupported) (rule decode_yaml_not_unsupported)
  qed
  from 1 2 3 show ?thesis by blast
qed



text \<open>
  C3. \<^verbatim>\<open>load_compatibility_matrix\<close> never looks at the extension: whatever the path,
  a file that opens and parses as JSON is returned, one that the JSON parser rejects
  fails with the JSON-decoding \<^verbatim>\<open>ConfigError\<close>, and no outcome is the unsupported-type
  error.
\<close>

theorem matrix_always_json:
  "(py_open matrix_file = Inr f \<longrightarrow> json_load f = Inr v \<longrightarrow>
      load_compatibility_matrix py_open json_load matrix_file = Inr v) \<and>
   (py_open matrix_file = Inr f \<longrightarrow> json_load f = Inl (JSONDecodeError e) \<longrightarrow>
      load_compatibility_matrix py_open json_load matrix_file =
        Inl (ConfigError (''Error decoding JSON in compatibility matrix file: '' @
                          matrix_file @ ''. '' @ e))) \<and>
   load_compatibility_matrix py_open json_load matrix_file \<noteq> Inl (ConfigError unsupported_msg)"
proof (intro conjI impI)
  assume "py_open matrix_file = Inr f" "json_load f = Inr v"
  then show "load_compatibility_matrix py_open json_load matrix_file = Inr v"
    by (simp add: load_compatibility_matrix_def decode_matrix_json_def matrix_except_def)
next
  assume "py_open matrix_file = Inr f" "json_load f = Inl (JSONDecodeError e)"
  then show "load_compatibility_matrix py_open json_load matrix_file =
        Inl (ConfigError (''Error decoding JSON in compatibility matrix file: '' @
                          matrix_file @ ''. '' @ e))"
    by (simp add: load_compatibility_matrix_def decode_matrix_json_def matrix_except_def)
next
  show "load_compatibility_matrix py_open json_load matrix_file \<noteq>
          Inl (ConfigError unsupported_msg)"
    by (auto simp: load_compatibility_matrix_def decode_matrix_json_def matrix_except_def
        unsupported_msg_def split: sum.splits raised.splits py_exception.splits)
qed

theorem matrix_always_json_witness:
  "lower (snd (splitext ''matrix.yaml'')) = ''.yaml'' \<and>
   load_compatibility_matrix (\<lambda>p. Inr ''env: [prod]'' :: py_exception + string)
     (\<lambda>t. if t = ''{}'' then Inr (PDict [])
          else Inl (JSONDecodeError ''Expecting value: line 1 column 1 (char 0)''))
     ''matrix.yaml'' =
     Inl (ConfigError (''Error decoding JSON in compatibility matrix file: matrix.yaml. '' @
                       ''Expecting value: line 1 column 1 (char 0)'')) \<and>
   load_compatibility_matrix (\<lambda>p. Inr ''{}'' :: py_exception + string)
     (\<lambda>t. if t = ''{}'' then Inr (PDict [])
          else Inl (JSONDecodeError ''Expecting value: line 1 column 1 (char 0)''))
     ''matrix.yaml'' = Inr (PDict [])"
proof -
  let ?jl = "\<lambda>t. if t = ''{}'' then Inr (PDict [])
          else Inl (JSONDecodeError ''Expecting value: line 1 column 1 (char 0)'')"
  have e: "lower (snd (splitext ''matrix.yaml'')) = ''.yaml''" by code_simp
  from matrix_always_json [of "\<lambda>p. Inr ''env: [prod]'' :: py_exception + string"
      "''matrix.yaml''" "''env: [prod]''" ?jl PNone
      "''Expecting value: line 1 column 1 (char 0)''"]
  have 1: "load_compatibility_matrix (\<lambda>p. Inr ''env: [prod]'' :: py_exception + string) ?jl
     ''matrix.yaml'' =
     Inl (ConfigError (''Error decoding JSON in compatibility matrix file: matrix.yaml. '' @
                       ''Expecting value: line 1 column 1 (char 0)''))"
    by simp
  from matrix_always_json [of "\<lambda>p. Inr ''{}'' :: py_exception + string"
      "''matrix.yaml''" "''{}''" ?jl "PDict []" "[]"]
  have 2: "load_compatibility_matrix (\<lambda>p. Inr ''{}'' :: py_exception + string) ?jl
     ''matrix.yaml'' = Inr (PDict [])"
    by simp
  from e 1 2 show ?thesis by blast
qed

end
